theory Spec2Isabelle
  imports
    Complex_Main
    "HOL-Library.Char_ord"
    "HOL-Library.List_Lexorder"
    "HOL-Library.Product_Lexorder"
begin

section \<open>The network dashboard renderer: \<open>create_visualization\<close>\<close>

text \<open>
  The source is one Python function, \<^verbatim>\<open>create_visualization(df)\<close> in
  \<^verbatim>\<open>visualizations.py\<close>. It takes a pandas table of captured packets, coerces the
  \<^verbatim>\<open>timestamp\<close> column to date-times, drops the rows where that fails, and shows three
  charts and an optional table through the dashboard library.

  The embedding follows the function statement by statement. The library calls it makes
  are modelled by small functions of the same names over lists of cells. What the
  dashboard shows is the list of display calls made, in order. An exception that leaves
  the function is a value in the outcome.

  Modelling choices, all of them about the libraries and none about the function:
  \<^item> numbers are exact rationals (Python floats are not modelled);
  \<^item> a date-time is its count of nanoseconds since the epoch, an unbounded integer that
    the coercion keeps within the 64-bit range of the library; flooring to the second is
    the mathematical floor;
  \<^item> how the library reads a text cell as a number of seconds depends on its version, so it
    is the parameter \<open>parse\<close> of the model (\<open>None\<close>: the text is not a number);
  \<^item> the displayed strings are given without the emoji of the source;
  \<^item> the order among equal counts in \<open>value_counts\<close> is the order of first appearance; the
    properties proved below do not mention it.
\<close>

subsection \<open>Tables\<close>

text \<open>
  A cell is a number, a text, a missing value (\<open>Null\<close>: \<^verbatim>\<open>None\<close> or NaN), a date-time or
  the missing date-time \<open>NaT\<close>. A table has its column names and its rows. A row gives a
  cell for every column name; only the cells of the table's own columns are ever read.
\<close>

datatype cell = Num rat | Text string | Null | Datetime int | NaT

type_synonym row = "string \<Rightarrow> cell"

record dataframe =
  columns :: "string list"
  rows :: "row list"

datatype exn = KeyError string | TypeError | AttributeError

text \<open>\<^verbatim>\<open>df.empty\<close>: true when either axis has length zero.\<close>

definition df_empty :: "dataframe \<Rightarrow> bool" where
  "df_empty df = (columns df = [] \<or> rows df = [])"

text \<open>\<^verbatim>\<open>df[c]\<close>: the column as a list of cells, or \<open>KeyError\<close>.\<close>

definition getitem :: "dataframe \<Rightarrow> string \<Rightarrow> exn + cell list" where
  "getitem df c =
     (if c \<in> set (columns df) then Inr (map (\<lambda>r. r c) (rows df)) else Inl (KeyError c))"

text \<open>\<^verbatim>\<open>df[c] = values\<close>: replaces the column, or appends it when it is new.\<close>

definition setitem :: "dataframe \<Rightarrow> string \<Rightarrow> cell list \<Rightarrow> dataframe" where
  "setitem df c vs =
     df\<lparr>columns := (if c \<in> set (columns df) then columns df else columns df @ [c]),
        rows := map2 (\<lambda>r v. r(c := v)) (rows df) vs\<rparr>"

definition isna :: "cell \<Rightarrow> bool" where
  "isna c = (c = Null \<or> c = NaT)"

text \<open>\<^verbatim>\<open>df.dropna(subset=[c], inplace=True)\<close>.\<close>

definition dropna :: "dataframe \<Rightarrow> string \<Rightarrow> exn + dataframe" where
  "dropna df c =
     (if c \<in> set (columns df) then Inr (df\<lparr>rows := filter (\<lambda>r. \<not> isna (r c)) (rows df)\<rparr>)
      else Inl (KeyError c))"

subsection \<open>Date-times\<close>

definition ns_per_s :: int where
  "ns_per_s = 1000000000"

definition min_ns :: int where
  "min_ns = - (2 ^ 63) + 1"

definition max_ns :: int where
  "max_ns = 2 ^ 63 - 1"

definition round_half_even :: "rat \<Rightarrow> int" where
  "round_half_even q =
     (let f = \<lfloor>q\<rfloor>; d = q - of_int f
      in if d < 1 / 2 then f else if 1 / 2 < d then f + 1 else if even f then f else f + 1)"

text \<open>Seconds since the epoch to the nearest nanosecond; out of range is coerced to \<open>NaT\<close>.\<close>

definition from_seconds :: "rat \<Rightarrow> cell" where
  "from_seconds q =
     (let t = round_half_even (q * of_int ns_per_s)
      in if min_ns \<le> t \<and> t \<le> max_ns then Datetime t else NaT)"

text \<open>\<^verbatim>\<open>pd.to_datetime(..., unit='s', errors='coerce')\<close> on one cell and on a column.\<close>

definition to_datetime_cell :: "(string \<Rightarrow> rat option) \<Rightarrow> cell \<Rightarrow> cell" where
  "to_datetime_cell parse c =
     (case c of
        Num q \<Rightarrow> from_seconds q
      | Text s \<Rightarrow> (case parse s of None \<Rightarrow> NaT | Some q \<Rightarrow> from_seconds q)
      | Null \<Rightarrow> NaT
      | Datetime t \<Rightarrow> Datetime t
      | NaT \<Rightarrow> NaT)"

definition to_datetime :: "(string \<Rightarrow> rat option) \<Rightarrow> cell list \<Rightarrow> cell list" where
  "to_datetime parse cs = map (to_datetime_cell parse) cs"

text \<open>\<^verbatim>\<open>series.dt.floor('s')\<close>: only a date-time column has the \<^verbatim>\<open>.dt\<close> accessor.\<close>

definition floor_s :: "cell \<Rightarrow> cell" where
  "floor_s c = (case c of Datetime t \<Rightarrow> Datetime (t - t mod ns_per_s) | _ \<Rightarrow> NaT)"

definition is_datetime :: "cell \<Rightarrow> bool" where
  "is_datetime c = (case c of Datetime _ \<Rightarrow> True | NaT \<Rightarrow> True | _ \<Rightarrow> False)"

definition dt_floor :: "cell list \<Rightarrow> exn + cell list" where
  "dt_floor cs = (if list_all is_datetime cs then Inr (map floor_s cs) else Inl AttributeError)"

subsection \<open>Aggregations\<close>

text \<open>The order in which group keys are sorted: numbers, then date-times, then text.\<close>

definition cell_key :: "cell \<Rightarrow> nat \<times> rat \<times> string" where
  "cell_key c =
     (case c of
        Num q \<Rightarrow> (0, q, [])
      | Datetime t \<Rightarrow> (1, of_int t, [])
      | Text s \<Rightarrow> (2, 0, s)
      | Null \<Rightarrow> (3, 0, [])
      | NaT \<Rightarrow> (3, 0, []))"

definition uniques :: "'a list \<Rightarrow> 'a list" where
  "uniques xs = rev (remdups (rev xs))"

text \<open>
  \<^verbatim>\<open>series.value_counts()\<close>: missing values are left out, the counts come in descending
  order.
\<close>

definition value_counts :: "cell list \<Rightarrow> (cell \<times> nat) list" where
  "value_counts cs =
     (let ys = filter (\<lambda>c. \<not> isna c) cs
      in sort_key (\<lambda>p. - int (snd p)) (map (\<lambda>k. (k, count_list ys k)) (uniques ys)))"

text \<open>\<^verbatim>\<open>df.groupby(keys).size()\<close>: one entry per key, keys ascending, missing keys left out.\<close>

definition groupby_size :: "cell list \<Rightarrow> (cell \<times> nat) list" where
  "groupby_size ks =
     (let ys = filter (\<lambda>c. \<not> isna c) ks
      in map (\<lambda>k. (k, count_list ys k)) (sort_key cell_key (remdups ys)))"

definition is_number :: "cell \<Rightarrow> bool" where
  "is_number c = (case c of Num _ \<Rightarrow> True | _ \<Rightarrow> False)"

definition is_text :: "cell \<Rightarrow> bool" where
  "is_text c = (case c of Text _ \<Rightarrow> True | _ \<Rightarrow> False)"

text \<open>
  The mean of a group: missing values are skipped, a group with no number has the mean
  NaN (\<open>None\<close>), anything that is neither a number nor missing is a \<open>TypeError\<close>.
\<close>

definition numbers :: "cell list \<Rightarrow> rat list" where
  "numbers cs = concat (map (\<lambda>c. case c of Num q \<Rightarrow> [q] | _ \<Rightarrow> []) cs)"

definition mean :: "cell list \<Rightarrow> exn + rat option" where
  "mean cs =
     (if list_all (\<lambda>c. isna c \<or> is_number c) cs
      then Inr (if numbers cs = [] then None
                else Some (sum_list (numbers cs) / of_nat (length (numbers cs))))
      else Inl TypeError)"

fun sequence :: "(exn + 'a) list \<Rightarrow> exn + 'a list" where
  "sequence [] = Inr []"
| "sequence (Inl e # _) = Inl e"
| "sequence (Inr x # rest) = (case sequence rest of Inl e \<Rightarrow> Inl e | Inr xs \<Rightarrow> Inr (x # xs))"

text \<open>
  \<^verbatim>\<open>df.groupby(key)[val].mean()\<close> on the two columns: one entry per key, keys ascending,
  missing keys left out.
\<close>

definition groupby_mean :: "cell list \<Rightarrow> cell list \<Rightarrow> exn + (cell \<times> rat option) list" where
  "groupby_mean ks vs =
     sequence
       (map (\<lambda>k. case mean (map snd (filter (\<lambda>p. fst p = k) (zip ks vs))) of
                    Inl e \<Rightarrow> Inl e
                  | Inr m \<Rightarrow> Inr (k, m))
         (sort_key cell_key (remdups (filter (\<lambda>c. \<not> isna c) ks))))"

subsection \<open>Formatting\<close>

definition digit_char :: "nat \<Rightarrow> char" where
  "digit_char n = ''0123456789'' ! (n mod 10)"

fun show_nat :: "nat \<Rightarrow> string" where
  "show_nat n = (if n < 10 then [digit_char n] else show_nat (n div 10) @ [digit_char n])"

declare show_nat.simps [simp del]

text \<open>\<^verbatim>\<open>f"{s:.1f}"\<close>: one digit after the point, ties to even, \<^verbatim>\<open>nan\<close> for NaN.\<close>

definition format_1f :: "rat option \<Rightarrow> string" where
  "format_1f m =
     (case m of
        None \<Rightarrow> ''nan''
      | Some q \<Rightarrow>
          (let t = nat (round_half_even (\<bar>q\<bar> * 10))
           in (if q < 0 then ''-'' else []) @ show_nat (t div 10) @ ''.'' @ [digit_char t]))"

subsection \<open>What the dashboard shows\<close>

datatype figure =
    Pie string "(cell \<times> nat) list"
  | Line string "(cell \<times> nat) list"
  | Bar string "(cell \<times> rat option \<times> string) list"

datatype widget =
    St_markdown string
  | St_warning string
  | St_error string
  | St_subheader string
  | St_plotly_chart figure
  | St_dataframe "(cell \<times> nat) list"
  | St_success string

text \<open>
  The outcome of a call: the display calls made, the table as the call leaves it (the
  function works on the caller's table in place), and the exception that left the
  function, if one did.
\<close>

record outcome =
  shown :: "widget list"
  frame :: dataframe
  raised :: "exn option"

definition str_exn :: "exn \<Rightarrow> string" where
  "str_exn e =
     (case e of
        KeyError k \<Rightarrow> [CHR 0x27] @ k @ [CHR 0x27]
      | TypeError \<Rightarrow> ''TypeError''
      | AttributeError \<Rightarrow> ''AttributeError'')"

subsection \<open>The renderer\<close>

text \<open>
  The body of the \<^verbatim>\<open>try\<close> block (lines 17 and 18): the table as the block leaves it, and
  the exception it raised, if any.
\<close>

definition timestamp_conversion ::
  "(string \<Rightarrow> rat option) \<Rightarrow> dataframe \<Rightarrow> dataframe \<times> exn option" where
  "timestamp_conversion parse df =
     (case getitem df ''timestamp'' of
        Inl e \<Rightarrow> (df, Some e)
      | Inr ts \<Rightarrow>
          (let df1 = setitem df ''timestamp'' (to_datetime parse ts)
           in case dropna df1 ''timestamp'' of
                Inl e \<Rightarrow> (df1, Some e)
              | Inr df2 \<Rightarrow> (df2, None)))"

text \<open>Lines 23 to 79, on the table after the conversion.\<close>

definition render_widgets :: "widget list \<Rightarrow> dataframe \<Rightarrow> outcome" where
  "render_widgets w0 df =
     (let w1 = w0 @ [St_subheader ''Protocol Distribution'']
      in case getitem df ''protocol'' of
           Inl e \<Rightarrow> \<lparr>shown = w1, frame = df, raised = Some e\<rparr>
         | Inr ps \<Rightarrow>
     (let protocol_counts = value_counts ps;
          w2 = w1 @ [St_plotly_chart (Pie ''Protocol Distribution (Live)'' protocol_counts),
                     St_subheader ''Packets per Second (Real-Time Trend)'']
      in case getitem df ''timestamp'' of
           Inl e \<Rightarrow> \<lparr>shown = w2, frame = df, raised = Some e\<rparr>
         | Inr ts \<Rightarrow>
     (case dt_floor ts of
           Inl e \<Rightarrow> \<lparr>shown = w2, frame = df, raised = Some e\<rparr>
         | Inr secs \<Rightarrow>
     (let df_grouped = groupby_size secs;
          w3 = w2 @ [St_plotly_chart (Line ''Packets per Second (Real-Time)'' df_grouped),
                     St_subheader ''Average Packet Size by Protocol'']
      in case getitem df ''protocol'' of
           Inl e \<Rightarrow> \<lparr>shown = w3, frame = df, raised = Some e\<rparr>
         | Inr ks \<Rightarrow>
     (case getitem df ''size'' of
           Inl e \<Rightarrow> \<lparr>shown = w3, frame = df, raised = Some e\<rparr>
         | Inr vs \<Rightarrow>
     (case groupby_mean ks vs of
           Inl e \<Rightarrow> \<lparr>shown = w3, frame = df, raised = Some e\<rparr>
         | Inr avg_size \<Rightarrow>
     (let bars = map (\<lambda>(p, s). (p, s, format_1f s @ '' bytes'')) avg_size;
          w4 = w3 @ [St_plotly_chart (Bar ''Average Packet Size by Protocol'' bars)];
          w5 = (if ''source'' \<in> set (columns df)
                then w4 @ [St_subheader ''Top Source IPs (By Packet Count)'',
                           St_dataframe (take 10 (value_counts (map (\<lambda>r. r ''source'') (rows df))))]
                else w4)
      in \<lparr>shown = w5 @ [St_success ''Dashboard updated successfully!''],
          frame = df, raised = None\<rparr>)))))))"

definition create_visualization :: "(string \<Rightarrow> rat option) \<Rightarrow> dataframe \<Rightarrow> outcome" where
  "create_visualization parse df =
     (let w0 = [St_markdown ''### Real-Time Network Traffic Dashboard'']
      in if df_empty df then
           \<lparr>shown = w0 @ [St_warning ''No data available yet. Waiting for packets...''],
            frame = df, raised = None\<rparr>
         else
           case timestamp_conversion parse df of
             (df1, Some e) \<Rightarrow>
               \<lparr>shown = w0 @ [St_error (''Timestamp conversion failed: '' @ str_exn e)],
                frame = df1, raised = None\<rparr>
           | (df1, None) \<Rightarrow> render_widgets w0 df1)"

subsection \<open>Notions the properties are stated with\<close>

text \<open>A row survives the coercion when its timestamp converts to a date-time.\<close>

definition survives :: "(string \<Rightarrow> rat option) \<Rightarrow> row \<Rightarrow> bool" where
  "survives parse r = (\<not> isna (to_datetime_cell parse (r ''timestamp'')))"

definition coerced :: "(string \<Rightarrow> rat option) \<Rightarrow> row \<Rightarrow> row" where
  "coerced parse r = r(''timestamp'' := to_datetime_cell parse (r ''timestamp''))"

definition survivors :: "(string \<Rightarrow> rat option) \<Rightarrow> dataframe \<Rightarrow> row list" where
  "survivors parse df = map (coerced parse) (filter (survives parse) (rows df))"

text \<open>
  The input contract of the renderer: the three mandatory columns are there, every
  protocol is a text label and every size a number. Timestamps are not constrained.
\<close>

definition packet_table :: "dataframe \<Rightarrow> bool" where
  "packet_table df =
     (''timestamp'' \<in> set (columns df) \<and> ''protocol'' \<in> set (columns df) \<and>
      ''size'' \<in> set (columns df) \<and>
      list_all (\<lambda>r. is_text (r ''protocol'') \<and> is_number (r ''size'')) (rows df))"

text \<open>The nanoseconds of a date-time cell, and the whole second a surviving row falls in.\<close>

definition ns_of :: "cell \<Rightarrow> int" where
  "ns_of c = (case c of Datetime t \<Rightarrow> t | _ \<Rightarrow> 0)"

definition second_of :: "row \<Rightarrow> int" where
  "second_of r = ns_of (floor_s (r ''timestamp''))"

text \<open>The sizes of the rows that carry a protocol, and the arithmetic mean of a list.\<close>

definition group_sizes :: "row list \<Rightarrow> cell \<Rightarrow> rat list" where
  "group_sizes rs k = numbers (map (\<lambda>r. r ''size'') (filter (\<lambda>r. r ''protocol'' = k) rs))"

definition arithmetic_mean :: "rat list \<Rightarrow> rat" where
  "arithmetic_mean qs = sum_list qs / of_nat (length qs)"

text \<open>The distinct source addresses of a list of rows.\<close>

definition addresses :: "row list \<Rightarrow> cell list" where
  "addresses rs = remdups (filter (\<lambda>a. \<not> isna a) (map (\<lambda>r. r ''source'') rs))"

text \<open>The data of the widgets shown, by kind.\<close>

definition pie_data :: "outcome \<Rightarrow> (cell \<times> nat) list list" where
  "pie_data out =
     concat (map (\<lambda>w. case w of St_plotly_chart (Pie _ d) \<Rightarrow> [d] | _ \<Rightarrow> []) (shown out))"

definition line_data :: "outcome \<Rightarrow> (cell \<times> nat) list list" where
  "line_data out =
     concat (map (\<lambda>w. case w of St_plotly_chart (Line _ d) \<Rightarrow> [d] | _ \<Rightarrow> []) (shown out))"


definition table_data :: "outcome \<Rightarrow> (cell \<times> nat) list list" where
  "table_data out =
     concat (map (\<lambda>w. case w of St_dataframe d \<Rightarrow> [d] | _ \<Rightarrow> []) (shown out))"

definition is_chart :: "widget \<Rightarrow> bool" where
  "is_chart w = (case w of St_plotly_chart _ \<Rightarrow> True | St_dataframe _ \<Rightarrow> True | _ \<Rightarrow> False)"

definition is_error :: "widget \<Rightarrow> bool" where
  "is_error w = (case w of St_error _ \<Rightarrow> True | _ \<Rightarrow> False)"

definition is_success :: "widget \<Rightarrow> bool" where
  "is_success w = (case w of St_success _ \<Rightarrow> True | _ \<Rightarrow> False)"


subsection \<open>Example tables\<close>

text \<open>
  Concrete tables on which the theorems below are instantiated. \<open>no_parse\<close> reads no text
  cell as a number. \<open>packet\<close> builds one row from its four fields.
\<close>

definition no_parse :: "string \<Rightarrow> rat option" where
  "no_parse s = None"

definition packet :: "cell \<Rightarrow> string \<Rightarrow> rat \<Rightarrow> string \<Rightarrow> row" where
  "packet t p s a =
     (\<lambda>c. Null)(''timestamp'' := t, ''protocol'' := Text p, ''size'' := Num s, ''source'' := Text a)"

definition example_empty :: dataframe where
  "example_empty = \<lparr>columns = [''timestamp'', ''protocol'', ''size'', ''source''], rows = []\<rparr>"

definition example_no_timestamp :: dataframe where
  "example_no_timestamp =
     \<lparr>columns = [''protocol'', ''size''], rows = [packet Null ''TCP'' 60 ''10.0.0.1'']\<rparr>"

definition example_unparsable :: dataframe where
  "example_unparsable =
     \<lparr>columns = [''timestamp'', ''protocol'', ''size''],
      rows = [packet (Text ''abc'') ''TCP'' 60 [], packet Null ''UDP'' 40 []]\<rparr>"

definition example_mixed :: dataframe where
  "example_mixed =
     \<lparr>columns = [''timestamp'', ''protocol'', ''size'', ''source''],
      rows = [packet (Num 0) ''TCP'' 10 ''10.0.0.1'',
              packet (Text ''abc'') ''UDP'' 7 ''10.0.0.3'',
              packet (Num 0) ''TCP'' 20 ''10.0.0.2'',
              packet (Num 1) ''UDP'' 100 ''10.0.0.1'']\<rparr>"

definition example_one_unparsable :: dataframe where
  "example_one_unparsable =
     \<lparr>columns = [''timestamp'', ''protocol'', ''size''], rows = [packet Null ''TCP'' 60 []]\<rparr>"

definition example_same_protocol :: dataframe where
  "example_same_protocol =
     \<lparr>columns = [''timestamp'', ''protocol'', ''size''],
      rows = [packet (Num 5) ''TCP'' 60 [], packet (Text ''abc'') ''TCP'' 40 [],
              packet (Num 7) ''TCP'' 52 []]\<rparr>"

definition example_seconds :: dataframe where
  "example_seconds =
     \<lparr>columns = [''timestamp'', ''protocol'', ''size''],
      rows = [packet (Num 0) ''TCP'' 60 [], packet (Num 0) ''UDP'' 40 [],
              packet (Num 1) ''TCP'' 52 []]\<rparr>"


definition example_fifteen :: dataframe where
  "example_fifteen =
     \<lparr>columns = [''timestamp'', ''protocol'', ''size'', ''source''],
      rows = [packet (Num 1) ''TCP'' 60 ''10.0.0.1'',
              packet (Num 2) ''TCP'' 60 ''10.0.0.2'',
              packet (Num 3) ''TCP'' 60 ''10.0.0.3'',
              packet (Num 4) ''TCP'' 60 ''10.0.0.4'',
              packet (Num 5) ''TCP'' 60 ''10.0.0.5'',
              packet (Num 6) ''TCP'' 60 ''10.0.0.6'',
              packet (Num 7) ''TCP'' 60 ''10.0.0.7'',
              packet (Num 8) ''TCP'' 60 ''10.0.0.8'',
              packet (Num 9) ''TCP'' 60 ''10.0.0.9'',
              packet (Num 10) ''TCP'' 60 ''10.0.0.10'',
              packet (Num 11) ''TCP'' 60 ''10.0.0.11'',
              packet (Num 12) ''TCP'' 60 ''10.0.0.12'',
              packet (Num 13) ''TCP'' 60 ''10.0.0.13'',
              packet (Num 14) ''TCP'' 60 ''10.0.0.14'',
              packet (Num 15) ''TCP'' 60 ''10.0.0.15'',
              packet (Num 16) ''UDP'' 40 ''10.0.0.15'',
              packet (Num 17) ''UDP'' 40 ''10.0.0.14'']\<rparr>"

definition example_fifteen_dropped :: dataframe where
  "example_fifteen_dropped =
     \<lparr>columns = [''timestamp'', ''protocol'', ''size'', ''source''],
      rows = [packet Null ''TCP'' 60 ''10.0.0.1'',
              packet Null ''TCP'' 60 ''10.0.0.2'',
              packet Null ''TCP'' 60 ''10.0.0.3'',
              packet Null ''TCP'' 60 ''10.0.0.4'',
              packet Null ''TCP'' 60 ''10.0.0.5'',
              packet Null ''TCP'' 60 ''10.0.0.6'',
              packet (Num 7) ''TCP'' 60 ''10.0.0.7'',
              packet (Num 8) ''TCP'' 60 ''10.0.0.8'',
              packet (Num 9) ''TCP'' 60 ''10.0.0.9'',
              packet (Num 10) ''TCP'' 60 ''10.0.0.10'',
              packet (Num 11) ''TCP'' 60 ''10.0.0.11'',
              packet (Num 12) ''TCP'' 60 ''10.0.0.12'',
              packet (Num 13) ''TCP'' 60 ''10.0.0.13'',
              packet (Num 14) ''TCP'' 60 ''10.0.0.14'',
              packet (Num 15) ''TCP'' 60 ''10.0.0.15'']\<rparr>"

section \<open>Lemmas about the library functions and the renderer\<close>

subsection \<open>The timestamp conversion\<close>

lemma map2_upd: "map2 (\<lambda>r v. r(c := v)) rs (map (\<lambda>r. f (r c)) rs) = map (\<lambda>r. r(c := f (r c))) rs"
  by (induction rs) auto

lemma timestamp_conversion_missing:
  "''timestamp'' \<notin> set (columns df) \<Longrightarrow>
   timestamp_conversion parse df = (df, Some (KeyError ''timestamp''))"
  by (simp add: timestamp_conversion_def getitem_def)

lemma coerced_filter:
  "filter (\<lambda>r. \<not> isna (r ''timestamp'')) (map (coerced parse) rs) =
   map (coerced parse) (filter (survives parse) rs)"
  by (induction rs) (simp_all add: coerced_def survives_def)

lemma timestamp_conversion_present:
  assumes "''timestamp'' \<in> set (columns df)"
  shows "timestamp_conversion parse df = (df\<lparr>rows := survivors parse df\<rparr>, None)"
proof -
  have get: "getitem df ''timestamp'' = Inr (map (\<lambda>r. r ''timestamp'') (rows df))"
    using assms by (simp add: getitem_def)
  have set: "setitem df ''timestamp'' (to_datetime parse (map (\<lambda>r. r ''timestamp'') (rows df)))
      = df\<lparr>rows := map (coerced parse) (rows df)\<rparr>"
    using assms map2_upd[of "''timestamp''" "rows df" "to_datetime_cell parse"]
    by (simp add: setitem_def to_datetime_def o_def coerced_def)
  have drop: "dropna (df\<lparr>rows := map (coerced parse) (rows df)\<rparr>) ''timestamp''
      = Inr (df\<lparr>rows := survivors parse df\<rparr>)"
    using assms by (simp add: dropna_def coerced_filter survivors_def)
  show ?thesis
    by (simp add: timestamp_conversion_def get set drop)
qed

lemma sequence_Inr: "sequence (map (\<lambda>k. Inr (g k)) ks) = Inr (map g ks)"
  by (induction ks) auto

lemma from_seconds_cases: "from_seconds q = NaT \<or> (\<exists>t. from_seconds q = Datetime t)"
  by (simp add: from_seconds_def Let_def)

lemma to_datetime_cell_cases:
  "to_datetime_cell parse c = NaT \<or> (\<exists>t. to_datetime_cell parse c = Datetime t)"
  using from_seconds_cases
  by (cases c) (auto simp: to_datetime_cell_def split: option.splits)

lemma survives_datetime:
  "survives parse r \<Longrightarrow> \<exists>t. to_datetime_cell parse (r ''timestamp'') = Datetime t"
  using to_datetime_cell_cases[of parse "r ''timestamp''"]
  by (auto simp: survives_def isna_def)

lemma survivors_datetime:
  "r \<in> set (survivors parse df) \<Longrightarrow> \<exists>t. r ''timestamp'' = Datetime t"
  using survives_datetime
  by (fastforce simp: survivors_def coerced_def)

lemma survivors_is_datetime:
  "list_all is_datetime (map (\<lambda>r. r ''timestamp'') (survivors parse df))"
  using survivors_datetime[of _ parse df]
  by (fastforce simp: list_all_iff is_datetime_def)

lemma coerced_other: "c \<noteq> ''timestamp'' \<Longrightarrow> coerced parse r c = r c"
  by (simp add: coerced_def)

lemma packet_table_survivors:
  "packet_table df \<Longrightarrow> r \<in> set (survivors parse df) \<Longrightarrow>
   is_text (r ''protocol'') \<and> is_number (r ''size'')"
  by (auto simp: packet_table_def survivors_def list_all_iff coerced_def)

lemma numbers_all_num: "list_all is_number cs \<Longrightarrow> length (numbers cs) = length cs"
  by (induction cs) (auto simp: numbers_def is_number_def split: cell.splits)

lemma mean_all_num:
  "list_all is_number cs \<Longrightarrow> cs \<noteq> [] \<Longrightarrow>
   mean cs = Inr (Some (sum_list (numbers cs) / of_nat (length cs)))"
proof -
  assume a: "list_all is_number cs" and ne: "cs \<noteq> []"
  have l: "length (numbers cs) = length cs" using a by (rule numbers_all_num)
  then have "numbers cs \<noteq> []" using ne by auto
  moreover have "list_all (\<lambda>c. isna c \<or> is_number c) cs"
    using a by (simp add: list_all_iff)
  ultimately show ?thesis by (simp add: mean_def l)
qed


lemma zip_map_filter:
  "map snd (filter (\<lambda>p. fst p = k) (zip (map f rs) (map g rs))) = map g (filter (\<lambda>r. f r = k) rs)"
  by (induction rs) auto

lemma groupby_mean_numbers:
  assumes nums: "list_all (\<lambda>r. is_number (g r)) rs"
  shows "groupby_mean (map f rs) (map g rs) =
     Inr (map (\<lambda>k. (k, Some (sum_list (numbers (map g (filter (\<lambda>r. f r = k) rs))) /
                           of_nat (length (filter (\<lambda>r. f r = k) rs)))))
           (sort_key cell_key (remdups (filter (\<lambda>c. \<not> isna c) (map f rs)))))"
proof -
  let ?keys = "sort_key cell_key (remdups (filter (\<lambda>c. \<not> isna c) (map f rs)))"
  let ?avg = "\<lambda>k. Some (sum_list (numbers (map g (filter (\<lambda>r. f r = k) rs))) /
                           of_nat (length (filter (\<lambda>r. f r = k) rs)))"
  have step: "(case mean (map snd (filter (\<lambda>p. fst p = k) (zip (map f rs) (map g rs)))) of
            Inl e \<Rightarrow> Inl e | Inr m \<Rightarrow> Inr (k, m)) = Inr (k, ?avg k)"
    if "k \<in> set ?keys" for k
  proof -
    from that obtain r where "r \<in> set rs" "f r = k" by auto
    then have ne: "map g (filter (\<lambda>r. f r = k) rs) \<noteq> []"
      by (auto simp: filter_empty_conv)
    have all: "list_all is_number (map g (filter (\<lambda>r. f r = k) rs))"
      using nums by (auto simp: list_all_iff)
    show ?thesis
      by (simp add: zip_map_filter mean_all_num[OF all ne])
  qed
  have "map (\<lambda>k. case mean (map snd (filter (\<lambda>p. fst p = k) (zip (map f rs) (map g rs)))) of
            Inl e \<Rightarrow> Inl e | Inr m \<Rightarrow> Inr (k, m)) ?keys = map (\<lambda>k. Inr (k, ?avg k)) ?keys"
    by (rule map_cong[OF refl]) (rule step)
  then show ?thesis
    unfolding groupby_mean_def by (simp only: sequence_Inr)
qed

lemma dt_floor_ok: "list_all is_datetime cs \<Longrightarrow> dt_floor cs = Inr (map floor_s cs)"
  by (simp add: dt_floor_def)

lemma render_widgets_ok:
  assumes p: "''protocol'' \<in> set (columns df)"
    and t: "''timestamp'' \<in> set (columns df)"
    and s: "''size'' \<in> set (columns df)"
    and dt: "list_all is_datetime (map (\<lambda>r. r ''timestamp'') (rows df))"
    and nums: "list_all (\<lambda>r. is_number (r ''size'')) (rows df)"
  shows "render_widgets w0 df =
    \<lparr>shown = w0 @
       [St_subheader ''Protocol Distribution'',
        St_plotly_chart (Pie ''Protocol Distribution (Live)''
          (value_counts (map (\<lambda>r. r ''protocol'') (rows df)))),
        St_subheader ''Packets per Second (Real-Time Trend)'',
        St_plotly_chart (Line ''Packets per Second (Real-Time)''
          (groupby_size (map (\<lambda>r. floor_s (r ''timestamp'')) (rows df)))),
        St_subheader ''Average Packet Size by Protocol'',
        St_plotly_chart (Bar ''Average Packet Size by Protocol''
          (map (\<lambda>k. (k,
                 Some (sum_list (numbers (map (\<lambda>r. r ''size'') (filter (\<lambda>r. r ''protocol'' = k) (rows df)))) /
                       of_nat (length (filter (\<lambda>r. r ''protocol'' = k) (rows df)))),
                 format_1f
                  (Some (sum_list (numbers (map (\<lambda>r. r ''size'') (filter (\<lambda>r. r ''protocol'' = k) (rows df)))) /
                       of_nat (length (filter (\<lambda>r. r ''protocol'' = k) (rows df))))) @ '' bytes''))
            (sort_key cell_key (remdups (filter (\<lambda>c. \<not> isna c) (map (\<lambda>r. r ''protocol'') (rows df)))))))] @
       (if ''source'' \<in> set (columns df)
        then [St_subheader ''Top Source IPs (By Packet Count)'',
              St_dataframe (take 10 (value_counts (map (\<lambda>r. r ''source'') (rows df))))]
        else []) @
       [St_success ''Dashboard updated successfully!''],
     frame = df, raised = None\<rparr>"
proof -
  have g1: "getitem df ''protocol'' = Inr (map (\<lambda>r. r ''protocol'') (rows df))"
    using p by (simp add: getitem_def)
  have g2: "getitem df ''timestamp'' = Inr (map (\<lambda>r. r ''timestamp'') (rows df))"
    using t by (simp add: getitem_def)
  have g3: "getitem df ''size'' = Inr (map (\<lambda>r. r ''size'') (rows df))"
    using s by (simp add: getitem_def)
  note fl = dt_floor_ok[OF dt]
  note gm = groupby_mean_numbers[of "\<lambda>r. r ''size''" "rows df" "\<lambda>r. r ''protocol''", OF nums]
  show ?thesis
    unfolding render_widgets_def
    by (simp only: g1 g2 g3 fl gm Let_def sum.case) (simp add: o_def)
qed

subsection \<open>The renderer on a packet table\<close>

lemma cv_render:
  assumes "''timestamp'' \<in> set (columns df)" "\<not> df_empty df"
  shows "create_visualization parse df =
     render_widgets [St_markdown ''### Real-Time Network Traffic Dashboard'']
       (df\<lparr>rows := survivors parse df\<rparr>)"
  using assms by (simp add: create_visualization_def timestamp_conversion_present)

lemma survivors_numbers:
  "packet_table df \<Longrightarrow> list_all (\<lambda>r. is_number (r ''size'')) (survivors parse df)"
  using packet_table_survivors[of df _ parse] by (auto simp: list_all_iff)

lemma group_mean_eq:
  assumes "list_all (\<lambda>r. is_number (r ''size'')) rs"
  shows "sum_list (numbers (map (\<lambda>r. r ''size'') (filter (\<lambda>r. r ''protocol'' = k) rs))) /
         of_nat (length (filter (\<lambda>r. r ''protocol'' = k) rs)) = arithmetic_mean (group_sizes rs k)"
proof -
  have "list_all is_number (map (\<lambda>r. r ''size'') (filter (\<lambda>r. r ''protocol'' = k) rs))"
    using assms by (auto simp: list_all_iff)
  from numbers_all_num[OF this] show ?thesis
    by (simp add: arithmetic_mean_def group_sizes_def)
qed

lemma cv_packets:
  assumes pt: "packet_table df" and ne: "\<not> df_empty df"
  shows "create_visualization parse df =
    \<lparr>shown = [St_markdown ''### Real-Time Network Traffic Dashboard'',
        St_subheader ''Protocol Distribution'',
        St_plotly_chart (Pie ''Protocol Distribution (Live)''
          (value_counts (map (\<lambda>r. r ''protocol'') (survivors parse df)))),
        St_subheader ''Packets per Second (Real-Time Trend)'',
        St_plotly_chart (Line ''Packets per Second (Real-Time)''
          (groupby_size (map (\<lambda>r. floor_s (r ''timestamp'')) (survivors parse df)))),
        St_subheader ''Average Packet Size by Protocol'',
        St_plotly_chart (Bar ''Average Packet Size by Protocol''
          (map (\<lambda>k. (k, Some (arithmetic_mean (group_sizes (survivors parse df) k)),
                 format_1f (Some (arithmetic_mean (group_sizes (survivors parse df) k))) @ '' bytes''))
            (sort_key cell_key (remdups (filter (\<lambda>c. \<not> isna c)
               (map (\<lambda>r. r ''protocol'') (survivors parse df)))))))] @
       (if ''source'' \<in> set (columns df)
        then [St_subheader ''Top Source IPs (By Packet Count)'',
              St_dataframe (take 10 (value_counts (map (\<lambda>r. r ''source'') (survivors parse df))))]
        else []) @
       [St_success ''Dashboard updated successfully!''],
     frame = df\<lparr>rows := survivors parse df\<rparr>, raised = None\<rparr>"
proof -
  let ?df = "df\<lparr>rows := survivors parse df\<rparr>"
  have t: "''timestamp'' \<in> set (columns df)" and p: "''protocol'' \<in> set (columns df)"
    and s: "''size'' \<in> set (columns df)"
    using pt by (simp_all add: packet_table_def)
  have dt: "list_all is_datetime (map (\<lambda>r. r ''timestamp'') (rows ?df))"
    using survivors_is_datetime[of parse df] by simp
  have nums: "list_all (\<lambda>r. is_number (r ''size'')) (rows ?df)"
    using survivors_numbers[OF pt, of parse] by simp
  have "create_visualization parse df =
     render_widgets [St_markdown ''### Real-Time Network Traffic Dashboard''] ?df"
    by (rule cv_render[OF t ne])
  also note render_widgets_ok[of ?df, OF _ _ _ dt nums]
  finally show ?thesis
    using p t s by (simp add: group_mean_eq[OF survivors_numbers[OF pt]])
qed

lemma cv_pie:
  "packet_table df \<Longrightarrow> \<not> df_empty df \<Longrightarrow>
   pie_data (create_visualization parse df) =
     [value_counts (map (\<lambda>r. r ''protocol'') (survivors parse df))]"
  by (cases "''source'' \<in> set (columns df)") (simp_all add: cv_packets pie_data_def)

lemma cv_line:
  "packet_table df \<Longrightarrow> \<not> df_empty df \<Longrightarrow>
   line_data (create_visualization parse df) =
     [groupby_size (map (\<lambda>r. floor_s (r ''timestamp'')) (survivors parse df))]"
  by (cases "''source'' \<in> set (columns df)") (simp_all add: cv_packets line_data_def)


lemma cv_table:
  "packet_table df \<Longrightarrow> \<not> df_empty df \<Longrightarrow>
   table_data (create_visualization parse df) =
     (if ''source'' \<in> set (columns df)
      then [take 10 (value_counts (map (\<lambda>r. r ''source'') (survivors parse df)))] else [])"
  by (cases "''source'' \<in> set (columns df)") (simp_all add: cv_packets table_data_def)

subsection \<open>Counting and grouping\<close>

lemma count_list_filter: "P k \<Longrightarrow> count_list (filter P xs) k = count_list xs k"
  by (induction xs) auto

lemma set_uniques: "set (uniques xs) = set xs"
  by (simp add: uniques_def)

lemma distinct_uniques: "distinct (uniques xs)"
  by (simp add: uniques_def)

lemma length_uniques: "length (uniques xs) = length (remdups xs)"
proof -
  have "length (uniques xs) = card (set (rev xs))"
    unfolding uniques_def by (simp only: length_rev length_remdups_card_conv)
  then show ?thesis by (simp add: length_remdups_card_conv)
qed





lemma value_counts_set:
  "set (value_counts cs) = (\<lambda>k. (k, count_list cs k)) ` {k \<in> set cs. \<not> isna k}"
  by (auto simp: value_counts_def Let_def set_uniques count_list_filter)

lemma distinct_map_insort_key:
  "distinct (map g (insort_key f x xs)) = (g x \<notin> g ` set xs \<and> distinct (map g xs))"
  by (induction xs) (auto simp: set_insort_key)

lemma distinct_map_sort_key: "distinct (map g (sort_key f xs)) = distinct (map g xs)"
  by (induction xs) (auto simp: distinct_map_insort_key)

lemma value_counts_distinct: "distinct (map fst (value_counts cs))"
  unfolding value_counts_def Let_def
  by (simp add: distinct_map_sort_key o_def distinct_uniques)

lemma value_counts_sorted: "sorted_wrt (\<lambda>p q. snd q \<le> snd p) (value_counts cs)"
proof -
  have "sorted (map (\<lambda>p. - int (snd p)) (value_counts cs))"
    unfolding value_counts_def Let_def by (rule sorted_sort_key)
  then show ?thesis
    by (simp add: sorted_map)
qed

lemma value_counts_length:
  "length (value_counts cs) = length (remdups (filter (\<lambda>c. \<not> isna c) cs))"
  by (simp add: value_counts_def Let_def length_uniques)

lemma remdups_replicate_same: "0 < n \<Longrightarrow> remdups (replicate n x) = [x]"
  by (induction n) auto

lemma value_counts_same:
  assumes "cs \<noteq> []" "\<forall>c\<in>set cs. c = p" "\<not> isna p"
  shows "value_counts cs = [(p, length cs)]"
proof -
  have rep: "cs = replicate (length cs) p"
    using assms(2) by (simp add: replicate_length_same)
  have f: "filter (\<lambda>c. \<not> isna c) cs = cs"
    using assms(2,3) by (auto simp: filter_id_conv)
  have u: "uniques cs = [p]"
    using assms(1) by (subst rep) (simp add: uniques_def remdups_replicate_same)
  have c: "count_list cs p = length cs"
    by (subst rep, subst rep) (simp add: count_list_eq_length_filter)
  show ?thesis
    by (simp add: value_counts_def f u c)
qed

lemma remdups_map_inj: "inj f \<Longrightarrow> remdups (map f xs) = map f (remdups xs)"
  by (induction xs) (auto simp: inj_def)

lemma cell_key_datetime_le: "cell_key (Datetime a) \<le> cell_key (Datetime b) \<longleftrightarrow> a \<le> b"
  by (auto simp: cell_key_def)

lemma insort_key_datetime:
  "insort_key cell_key (Datetime t) (map Datetime ys) = map Datetime (insort t ys)"
  by (induction ys) (simp_all add: cell_key_datetime_le)

lemma count_list_datetime: "count_list (map Datetime xs) (Datetime b) = count_list xs b"
  by (induction xs) auto

lemma sort_key_datetime: "sort_key cell_key (map Datetime ys) = map Datetime (sort ys)"
  by (induction ys) (auto simp: insort_key_datetime)

lemma groupby_size_datetime:
  "groupby_size (map Datetime xs) = map (\<lambda>b. (Datetime b, count_list xs b)) (sort (remdups xs))"
proof -
  have f: "filter (\<lambda>c. \<not> isna c) (map Datetime xs) = map Datetime xs"
    by (simp add: filter_id_conv isna_def)
  note c = count_list_datetime
  have i: "inj Datetime" by (simp add: inj_def)
  show ?thesis
    by (simp add: groupby_size_def f remdups_map_inj[OF i] sort_key_datetime c o_def)
qed

lemma survivor_floor:
  "r \<in> set (survivors parse df) \<Longrightarrow> floor_s (r ''timestamp'') = Datetime (second_of r)"
  using survivors_datetime[of r parse df]
  by (auto simp: second_of_def floor_s_def ns_of_def)

lemma survivors_floor:
  "map (\<lambda>r. floor_s (r ''timestamp'')) (survivors parse df) =
   map Datetime (map second_of (survivors parse df))"
  using survivor_floor[of _ parse df] by simp

lemma second_of_whole: "second_of r mod ns_per_s = 0"
  by (simp add: second_of_def floor_s_def ns_of_def ns_per_s_def split: cell.splits)

lemma count_list_map_filter: "count_list (map f xs) b = length (filter (\<lambda>x. f x = b) xs)"
  by (induction xs) auto




subsection \<open>Further facts about the outcome of a call\<close>

lemma timestamp_conversion_fatal:
  "snd (timestamp_conversion parse df) = Some e \<Longrightarrow>
   timestamp_conversion parse df = (df, Some e) \<and> e = KeyError ''timestamp'' \<and>
   ''timestamp'' \<notin> set (columns df)"
  by (cases "''timestamp'' \<in> set (columns df)")
    (auto simp: timestamp_conversion_present timestamp_conversion_missing)

lemma survivors_none:
  "list_all (\<lambda>r. \<not> survives parse r) (rows df) \<Longrightarrow> survivors parse df = []"
  by (simp add: survivors_def list_all_iff filter_empty_conv)

lemma value_counts_Nil: "value_counts [] = []"
  by (simp add: value_counts_def uniques_def)

lemma groupby_size_Nil: "groupby_size [] = []"
  by (simp add: groupby_size_def)

lemma frame_render_widgets: "frame (render_widgets w0 d) = d"
  by (simp add: render_widgets_def Let_def split: sum.splits)

lemma cv_frame:
  "frame (create_visualization parse df) = df \<or>
   frame (create_visualization parse df) = df\<lparr>rows := survivors parse df\<rparr>"
proof (cases "df_empty df")
  case True
  then show ?thesis
    by (simp add: create_visualization_def)
next
  case False
  show ?thesis
  proof (cases "''timestamp'' \<in> set (columns df)")
    case True
    with False show ?thesis
      by (simp add: cv_render frame_render_widgets)
  next
    case False
    with \<open>\<not> df_empty df\<close> show ?thesis
      by (simp add: create_visualization_def timestamp_conversion_missing)
  qed
qed


lemma list_all2_coerced:
  "list_all2 (\<lambda>r' r. \<forall>c. c \<noteq> ''timestamp'' \<longrightarrow> r' c = r c) (map (coerced parse) rs) rs"
  by (simp add: list_all2_map1 list_all2_same coerced_other)

lemma cv_line_seconds:
  assumes "packet_table df" "\<not> df_empty df"
  shows "line_data (create_visualization parse df) =
     [map (\<lambda>b. (Datetime b, count_list (map second_of (survivors parse df)) b))
        (sort (remdups (map second_of (survivors parse df))))]"
  by (simp only: cv_line[OF assms] survivors_floor groupby_size_datetime)

lemma second_of_coerced:
  "second_of (coerced parse r) = ns_of (floor_s (to_datetime_cell parse (r ''timestamp'')))"
  by (simp add: second_of_def coerced_def)

lemma second_of_survivors:
  "map second_of (survivors parse df) =
   map (\<lambda>c. ns_of (floor_s c))
     (filter (\<lambda>c. \<not> isna c) (map (to_datetime_cell parse) (map (\<lambda>r. r ''timestamp'') (rows df))))"
  unfolding survivors_def
  by (simp add: filter_map o_def second_of_coerced survives_def[abs_def])

lemma survivor_second:
  assumes "r \<in> set (survivors parse df)"
  shows "second_of r \<le> ns_of (r ''timestamp'') \<and> ns_of (r ''timestamp'') < second_of r + ns_per_s"
proof -
  from survivors_datetime[OF assms] obtain t where "r ''timestamp'' = Datetime t" ..
  then show ?thesis
    by (simp add: second_of_def floor_s_def ns_of_def ns_per_s_def)
qed

lemma from_seconds_0: "from_seconds 0 = Datetime 0"
  by code_simp

lemma from_seconds_1: "from_seconds 1 = Datetime 1000000000"
  by code_simp







lemma sorted_wrt_take_drop:
  assumes "sorted_wrt R xs" "x \<in> set (take n xs)" "y \<in> set (drop n xs)"
  shows "R x y"
proof -
  have "sorted_wrt R (take n xs @ drop n xs)" using assms(1) by simp
  then show ?thesis
    using assms(2,3) unfolding sorted_wrt_append by blast
qed

lemma top_sources_properties:
  fixes S :: "row list"
  defines "T \<equiv> take 10 (value_counts (map (\<lambda>r. r ''source'') S))"
  shows "length T = min 10 (length (addresses S))"
    and "distinct (map fst T)"
    and "sorted_wrt (\<lambda>p q. snd q \<le> snd p) T"
    and "\<forall>(a, n)\<in>set T. a \<in> set (addresses S) \<and> n = length (filter (\<lambda>r. r ''source'' = a) S)"
    and "\<forall>a\<in>set (addresses S). a \<notin> fst ` set T \<longrightarrow>
           (\<forall>(b, n)\<in>set T. length (filter (\<lambda>r. r ''source'' = a) S) \<le> n)"
proof -
  let ?V = "value_counts (map (\<lambda>r. r ''source'') S)"
  let ?cnt = "\<lambda>a. length (filter (\<lambda>r. r ''source'' = a) S)"
  have V: "set ?V = (\<lambda>a. (a, ?cnt a)) ` set (addresses S)"
    by (auto simp: value_counts_set addresses_def count_list_map_filter)
  show "length T = min 10 (length (addresses S))"
    by (simp add: T_def value_counts_length addresses_def min.commute)
  show "distinct (map fst T)"
    unfolding T_def using value_counts_distinct[of "map (\<lambda>r. r ''source'') S"]
    by (simp add: take_map[symmetric] distinct_take)
  show "sorted_wrt (\<lambda>p q. snd q \<le> snd p) T"
    unfolding T_def by (rule sorted_wrt_take[OF value_counts_sorted])
  have sub: "set T \<subseteq> set ?V"
    unfolding T_def by (rule set_take_subset)
  show "\<forall>(a, n)\<in>set T. a \<in> set (addresses S) \<and> n = ?cnt a"
    using sub V by auto
  show "\<forall>a\<in>set (addresses S). a \<notin> fst ` set T \<longrightarrow> (\<forall>(b, n)\<in>set T. ?cnt a \<le> n)"
  proof (intro ballI impI)
    fix a p
    assume a: "a \<in> set (addresses S)" and out: "a \<notin> fst ` set T" and p: "p \<in> set T"
    from a V have "(a, ?cnt a) \<in> set ?V" by auto
    then have "(a, ?cnt a) \<in> set (take 10 ?V) \<union> set (drop 10 ?V)"
      by (simp only: set_append[symmetric] append_take_drop_id)
    moreover have "(a, ?cnt a) \<notin> set T" using out by force
    ultimately have d: "(a, ?cnt a) \<in> set (drop 10 ?V)"
      by (simp add: T_def)
    from sorted_wrt_take_drop[OF value_counts_sorted p[unfolded T_def] d]
    have "?cnt a \<le> snd p" by simp
    then show "case p of (b, n) \<Rightarrow> ?cnt a \<le> n"
      by (cases p) simp
  qed
qed

section \<open>The claims\<close>

text \<open>
  Claim C4. On an empty table the renderer shows the page title and the "no data" notice and
  returns: no chart or table widget is shown, no exception leaves the function, and the
  table is left as it was.
\<close>

theorem empty_table_notice:
  assumes "df_empty df"
  shows "shown (create_visualization parse df) =
           [St_markdown ''### Real-Time Network Traffic Dashboard'',
            St_warning ''No data available yet. Waiting for packets...''] \<and>
         filter is_chart (shown (create_visualization parse df)) = [] \<and>
         raised (create_visualization parse df) = None \<and>
         frame (create_visualization parse df) = df"
  using assms by (simp add: create_visualization_def is_chart_def)

text \<open>The same on a table that has the four columns and no row.\<close>

theorem empty_table_notice_witness:
  "df_empty example_empty \<and>
   shown (create_visualization no_parse example_empty) =
     [St_markdown ''### Real-Time Network Traffic Dashboard'',
      St_warning ''No data available yet. Waiting for packets...''] \<and>
   filter is_chart (shown (create_visualization no_parse example_empty)) = [] \<and>
   raised (create_visualization no_parse example_empty) = None \<and>
   frame (create_visualization no_parse example_empty) = example_empty"
proof -
  have h: "df_empty example_empty"
    by (simp add: example_empty_def df_empty_def)
  show ?thesis
    using h empty_table_notice[OF h, of no_parse] by blast
qed

text \<open>
  Claim C3. On a table that is not empty, when the conversion step raises (in this model:
  when the \<^verbatim>\<open>timestamp\<close> column is missing, which raises \<open>KeyError\<close>), the renderer
  shows the error message built from the exception and returns: no chart or table widget,
  no success message, no exception leaving the function, the table left as it was.
\<close>

theorem conversion_error_path:
  assumes "\<not> df_empty df"
    and "snd (timestamp_conversion parse df) = Some e \<or>
         (''timestamp'' \<notin> set (columns df) \<and> e = KeyError ''timestamp'')"
  shows "shown (create_visualization parse df) =
           [St_markdown ''### Real-Time Network Traffic Dashboard'',
            St_error (''Timestamp conversion failed: '' @ str_exn e)] \<and>
         filter is_chart (shown (create_visualization parse df)) = [] \<and>
         filter is_success (shown (create_visualization parse df)) = [] \<and>
         raised (create_visualization parse df) = None \<and>
         frame (create_visualization parse df) = df"
proof -
  have "timestamp_conversion parse df = (df, Some e)"
    using assms(2) timestamp_conversion_fatal[of parse df e]
    by (auto simp: timestamp_conversion_missing)
  then show ?thesis
    using assms(1) by (simp add: create_visualization_def is_chart_def is_success_def)
qed

text \<open>The same on a one-row table with no \<^verbatim>\<open>timestamp\<close> column.\<close>

theorem conversion_error_path_witness:
  "\<not> df_empty example_no_timestamp \<and>
   ''timestamp'' \<notin> set (columns example_no_timestamp) \<and>
   shown (create_visualization no_parse example_no_timestamp) =
     [St_markdown ''### Real-Time Network Traffic Dashboard'',
      St_error (''Timestamp conversion failed: '' @ [CHR 0x27] @ ''timestamp'' @ [CHR 0x27])] \<and>
   filter is_chart (shown (create_visualization no_parse example_no_timestamp)) = [] \<and>
   filter is_success (shown (create_visualization no_parse example_no_timestamp)) = [] \<and>
   raised (create_visualization no_parse example_no_timestamp) = None"
proof -
  have h1: "\<not> df_empty example_no_timestamp"
    by (simp add: example_no_timestamp_def df_empty_def)
  have h2: "''timestamp'' \<notin> set (columns example_no_timestamp)"
    by (simp add: example_no_timestamp_def)
  from h2 have h3: "snd (timestamp_conversion no_parse example_no_timestamp) =
        Some (KeyError ''timestamp'') \<or>
      (''timestamp'' \<notin> set (columns example_no_timestamp) \<and>
       KeyError ''timestamp'' = KeyError ''timestamp'')"
    by simp
  show ?thesis
    using h1 h2 conversion_error_path[OF h1 h3] by (simp add: str_exn_def is_chart_def is_success_def)
qed

text \<open>
  Claim C1, as stated, does not hold. The conversion is called with \<^verbatim>\<open>errors='coerce'\<close>, so
  a timestamp that cannot be read raises nothing: it becomes \<open>NaT\<close> and its row is dropped.
  On a table of two rows, one with the text \<^verbatim>\<open>abc\<close> and one with no timestamp, every row
  fails, yet no error is shown and the three charts are drawn, each with no data.
\<close>

theorem all_rows_fail_counterexample:
  "\<not> df_empty example_unparsable \<and>
   list_all (\<lambda>r. \<not> survives no_parse r) (rows example_unparsable) \<and>
   \<not> list_ex is_error (shown (create_visualization no_parse example_unparsable)) \<and>
   filter is_chart (shown (create_visualization no_parse example_unparsable)) =
     [St_plotly_chart (Pie ''Protocol Distribution (Live)'' []),
      St_plotly_chart (Line ''Packets per Second (Real-Time)'' []),
      St_plotly_chart (Bar ''Average Packet Size by Protocol'' [])] \<and>
   list_ex is_success (shown (create_visualization no_parse example_unparsable))"
  by code_simp

text \<open>
  Claim C1, amended. When every row of a non-empty packet table fails the conversion, all
  rows are dropped, no error is shown, and the renderer draws every widget from the empty
  table that is left and shows the success message.
\<close>

theorem all_rows_fail_renders_empty:
  assumes "packet_table df" and "\<not> df_empty df"
    and "list_all (\<lambda>r. \<not> survives parse r) (rows df)"
  shows "shown (create_visualization parse df) =
           [St_markdown ''### Real-Time Network Traffic Dashboard'',
            St_subheader ''Protocol Distribution'',
            St_plotly_chart (Pie ''Protocol Distribution (Live)'' []),
            St_subheader ''Packets per Second (Real-Time Trend)'',
            St_plotly_chart (Line ''Packets per Second (Real-Time)'' []),
            St_subheader ''Average Packet Size by Protocol'',
            St_plotly_chart (Bar ''Average Packet Size by Protocol'' [])] @
           (if ''source'' \<in> set (columns df)
            then [St_subheader ''Top Source IPs (By Packet Count)'', St_dataframe []]
            else []) @
           [St_success ''Dashboard updated successfully!''] \<and>
         \<not> list_ex is_error (shown (create_visualization parse df)) \<and>
         raised (create_visualization parse df) = None \<and>
         rows (frame (create_visualization parse df)) = []"
  by (simp add: cv_packets[OF assms(1,2)] survivors_none[OF assms(3)]
      value_counts_Nil groupby_size_Nil is_error_def)

text \<open>The amended claim on the table of the counterexample.\<close>

theorem all_rows_fail_renders_empty_witness:
  "packet_table example_unparsable \<and> \<not> df_empty example_unparsable \<and>
   list_all (\<lambda>r. \<not> survives no_parse r) (rows example_unparsable) \<and>
   shown (create_visualization no_parse example_unparsable) =
     [St_markdown ''### Real-Time Network Traffic Dashboard'',
      St_subheader ''Protocol Distribution'',
      St_plotly_chart (Pie ''Protocol Distribution (Live)'' []),
      St_subheader ''Packets per Second (Real-Time Trend)'',
      St_plotly_chart (Line ''Packets per Second (Real-Time)'' []),
      St_subheader ''Average Packet Size by Protocol'',
      St_plotly_chart (Bar ''Average Packet Size by Protocol'' []),
      St_success ''Dashboard updated successfully!''] \<and>
   rows (frame (create_visualization no_parse example_unparsable)) = []"
proof -
  have h1: "packet_table example_unparsable" by code_simp
  have h2: "\<not> df_empty example_unparsable" by code_simp
  have h3: "list_all (\<lambda>r. \<not> survives no_parse r) (rows example_unparsable)" by code_simp
  have c: "''source'' \<notin> set (columns example_unparsable)"
    by (simp add: example_unparsable_def)
  show ?thesis
    using h1 h2 h3 c all_rows_fail_renders_empty[OF h1 h2 h3] by simp
qed



text \<open>
  Claim C9. Whatever the table, the call leaves its columns as they were and adds no row.
  The rows it leaves are either all the rows of the input (when it returned at the empty
  check or at the conversion error) or the rows whose timestamp converts, in their order;
  in both cases every cell of every column other than \<^verbatim>\<open>timestamp\<close> (so the protocol, the
  size and the source) is what it was.
\<close>

theorem only_timestamp_and_rows_change:
  fixes parse df
  defines "out \<equiv> create_visualization parse df"
  defines "unchanged \<equiv> (\<lambda>r' r. \<forall>c. c \<noteq> ''timestamp'' \<longrightarrow> r' c = (r c :: cell))"
  shows "columns (frame out) = columns df \<and>
         length (rows (frame out)) \<le> length (rows df) \<and>
         (list_all2 unchanged (rows (frame out)) (rows df) \<or>
          list_all2 unchanged (rows (frame out)) (filter (survives parse) (rows df)))"
proof -
  consider "frame out = df" | "frame out = df\<lparr>rows := survivors parse df\<rparr>"
    unfolding out_def using cv_frame by blast
  then show ?thesis
  proof cases
    case 1
    then show ?thesis
      by (simp add: unchanged_def list_all2_same)
  next
    case 2
    have "list_all2 unchanged (rows (frame out)) (filter (survives parse) (rows df))"
      unfolding unchanged_def using 2 list_all2_coerced by (simp add: survivors_def)
    then show ?thesis
      using 2 by (simp add: survivors_def)
  qed
qed

text \<open>
  The same on the table of four rows with one failing timestamp: three rows are left,
  with their protocol, size and source as before.
\<close>

theorem only_timestamp_and_rows_change_witness:
  "columns (frame (create_visualization no_parse example_mixed)) = columns example_mixed \<and>
   length (rows (frame (create_visualization no_parse example_mixed))) \<le> length (rows example_mixed) \<and>
   map (\<lambda>r. (r ''protocol'', r ''size'', r ''source''))
       (rows (frame (create_visualization no_parse example_mixed))) =
     [(Text ''TCP'', Num 10, Text ''10.0.0.1''), (Text ''TCP'', Num 20, Text ''10.0.0.2''),
      (Text ''UDP'', Num 100, Text ''10.0.0.1'')]"
proof -
  have e: "map (\<lambda>r. (r ''protocol'', r ''size'', r ''source''))
       (rows (frame (create_visualization no_parse example_mixed))) =
     [(Text ''TCP'', Num 10, Text ''10.0.0.1''), (Text ''TCP'', Num 20, Text ''10.0.0.2''),
      (Text ''UDP'', Num 100, Text ''10.0.0.1'')]"
    by code_simp
  show ?thesis
    using e only_timestamp_and_rows_change[of no_parse example_mixed] by blast
qed



text \<open>
  Claim C8, as stated, does not hold when no row survives the conversion: on a table whose
  only row has protocol TCP and no timestamp, all rows share one protocol, yet the chart
  has no category at all (the claim asks for one category with count 1).
\<close>

theorem single_protocol_counterexample:
  "\<not> df_empty example_one_unparsable \<and>
   list_all (\<lambda>r. r ''protocol'' = Text ''TCP'') (rows example_one_unparsable) \<and>
   length (rows example_one_unparsable) = 1 \<and>
   pie_data (create_visualization no_parse example_one_unparsable) = [[]]"
  by code_simp

text \<open>
  Claim C8, amended. On a non-empty packet table the protocol chart has one entry per
  distinct protocol of the surviving rows \<open>S\<close>, with the number of surviving rows that
  carry it. When at least one row survives and all surviving rows share the protocol
  \<open>p\<close>, the chart is the single category \<open>p\<close> with the number of surviving rows.
\<close>

theorem protocol_distribution_counts:
  fixes parse df p
  defines "out \<equiv> create_visualization parse df"
  defines "S \<equiv> survivors parse df"
  assumes pt: "packet_table df" and ne: "\<not> df_empty df"
  shows "\<exists>P. pie_data out = [P] \<and> distinct (map fst P) \<and>
           set P = (\<lambda>k. (k, length (filter (\<lambda>r. r ''protocol'' = k) S))) `
                     (\<lambda>r. r ''protocol'') ` set S \<and>
           (S \<noteq> [] \<and> (\<forall>r\<in>set S. r ''protocol'' = p) \<longrightarrow> P = [(p, length S)])"
proof -
  let ?ps = "map (\<lambda>r. r ''protocol'') S"
  have nn: "\<not> isna c" if "c \<in> set ?ps" for c
  proof -
    from that obtain r where r: "r \<in> set (survivors parse df)" "c = r ''protocol''"
      by (auto simp: S_def)
    show ?thesis
      using packet_table_survivors[OF pt r(1)] r(2)
      by (auto simp: is_text_def isna_def split: cell.splits)
  qed
  have "{k \<in> set ?ps. \<not> isna k} = (\<lambda>r. r ''protocol'') ` set S"
    using nn by auto
  then have s: "set (value_counts ?ps) =
      (\<lambda>k. (k, length (filter (\<lambda>r. r ''protocol'' = k) S))) ` (\<lambda>r. r ''protocol'') ` set S"
    by (simp add: value_counts_set count_list_map_filter)
  have one: "value_counts ?ps = [(p, length S)]"
    if "S \<noteq> []" "\<forall>r\<in>set S. r ''protocol'' = p"
  proof -
    have "p \<in> set ?ps" using that by (cases S) auto
    then have "\<not> isna p" by (rule nn)
    with that value_counts_same[of ?ps p] show ?thesis by simp
  qed
  show ?thesis
    unfolding out_def using s one value_counts_distinct[of ?ps]
    by (simp add: cv_pie[OF pt ne] S_def)
qed

text \<open>The amended claim on a table of three TCP rows, two of which survive.\<close>

theorem protocol_distribution_counts_witness:
  "packet_table example_same_protocol \<and> \<not> df_empty example_same_protocol \<and>
   survivors no_parse example_same_protocol \<noteq> [] \<and>
   list_all (\<lambda>r. r ''protocol'' = Text ''TCP'') (survivors no_parse example_same_protocol) \<and>
   length (survivors no_parse example_same_protocol) = 2 \<and>
   pie_data (create_visualization no_parse example_same_protocol) = [[(Text ''TCP'', 2)]]"
proof -
  have h1: "packet_table example_same_protocol" by code_simp
  have h2: "\<not> df_empty example_same_protocol" by code_simp
  have h3: "survivors no_parse example_same_protocol \<noteq> []" by code_simp
  have h4: "list_all (\<lambda>r. r ''protocol'' = Text ''TCP'') (survivors no_parse example_same_protocol)"
    by code_simp
  have n: "length (survivors no_parse example_same_protocol) = 2" by code_simp
  from h4 have h4': "\<forall>r\<in>set (survivors no_parse example_same_protocol). r ''protocol'' = Text ''TCP''"
    by (simp add: list_all_iff)
  from protocol_distribution_counts[OF h1 h2, of no_parse "Text ''TCP''"] h3 h4' n
  have "pie_data (create_visualization no_parse example_same_protocol) = [[(Text ''TCP'', 2)]]"
    by auto
  then show ?thesis
    using h1 h2 h3 h4 n by simp
qed

text \<open>
  Claim C6. On a non-empty packet table, every surviving row falls in a whole second, the
  floor of its converted timestamp. The per-second chart has one point per second in
  which some surviving row falls, the seconds in strictly ascending order, each with the
  number of surviving rows that fall in it. For the timestamps 0, 0 and 1 it has the two
  points second 0 with count 2 and second 1 with count 1.
\<close>

theorem packets_per_second_buckets:
  fixes parse df
  defines "out \<equiv> create_visualization parse df"
  defines "S \<equiv> survivors parse df"
  assumes pt: "packet_table df" and ne: "\<not> df_empty df"
  shows "(\<forall>r\<in>set S. second_of r mod ns_per_s = 0 \<and> second_of r \<le> ns_of (r ''timestamp'') \<and>
                     ns_of (r ''timestamp'') < second_of r + ns_per_s) \<and>
         (\<exists>bs. line_data out =
                  [map (\<lambda>b. (Datetime b, length (filter (\<lambda>r. second_of r = b) S))) bs] \<and>
               sorted_wrt (<) bs \<and> set bs = second_of ` set S) \<and>
         (map (\<lambda>r. r ''timestamp'') (rows df) = [Num 0, Num 0, Num 1] \<longrightarrow>
            line_data out = [[(Datetime 0, 2), (Datetime 1000000000, 1)]])"
proof -
  let ?bs = "sort (remdups (map second_of S))"
  have l: "line_data out = [map (\<lambda>b. (Datetime b, count_list (map second_of S) b)) ?bs]"
    unfolding out_def S_def by (rule cv_line_seconds[OF pt ne])
  have a: "\<forall>r\<in>set S. second_of r mod ns_per_s = 0 \<and> second_of r \<le> ns_of (r ''timestamp'') \<and>
                     ns_of (r ''timestamp'') < second_of r + ns_per_s"
    unfolding S_def using survivor_second[of _ parse df] second_of_whole by blast
  have b: "line_data out = [map (\<lambda>b. (Datetime b, length (filter (\<lambda>r. second_of r = b) S))) ?bs]"
    by (simp add: l count_list_map_filter)
  have c: "sorted_wrt (<) ?bs"
    by (simp add: strict_sorted_iff)
  have d: "set ?bs = second_of ` set S"
    by simp
  have e: "line_data out = [[(Datetime 0, 2), (Datetime 1000000000, 1)]]"
    if "map (\<lambda>r. r ''timestamp'') (rows df) = [Num 0, Num 0, Num 1]"
  proof -
    have "map second_of S = [0, 0, 1000000000]"
      unfolding S_def
      by (simp add: second_of_survivors that to_datetime_cell_def from_seconds_0 from_seconds_1
          isna_def floor_s_def ns_of_def ns_per_s_def)
    then show ?thesis
      by (simp add: l)
  qed
  show ?thesis
    using a b c d e by blast
qed

text \<open>The same on a table of three rows with the timestamps 0, 0 and 1.\<close>

theorem packets_per_second_buckets_witness:
  "packet_table example_seconds \<and> \<not> df_empty example_seconds \<and>
   map (\<lambda>r. r ''timestamp'') (rows example_seconds) = [Num 0, Num 0, Num 1] \<and>
   line_data (create_visualization no_parse example_seconds) =
     [[(Datetime 0, 2), (Datetime 1000000000, 1)]]"
proof -
  have h1: "packet_table example_seconds" by code_simp
  have h2: "\<not> df_empty example_seconds" by code_simp
  have h3: "map (\<lambda>r. r ''timestamp'') (rows example_seconds) = [Num 0, Num 0, Num 1]"
    by (simp add: example_seconds_def packet_def)
  from packets_per_second_buckets[OF h1 h2, of no_parse] h3
  have "line_data (create_visualization no_parse example_seconds) =
     [[(Datetime 0, 2), (Datetime 1000000000, 1)]]"
    by blast
  then show ?thesis
    using h1 h2 h3 by blast
qed




text \<open>
  Claim C5, as stated, does not hold on two kinds of table. An empty table that has a
  \<^verbatim>\<open>source\<close> column gets no top-talkers widget (the renderer returns at the empty check).
  And a table of fifteen rows with fifteen distinct source addresses, six of which have
  no timestamp, gets a top-talkers table of nine rows, not ten: the six rows are dropped
  before the addresses are counted.
\<close>

theorem top_talkers_counterexample:
  "''source'' \<in> set (columns example_empty) \<and>
   table_data (create_visualization no_parse example_empty) = [] \<and>
   ''source'' \<in> set (columns example_fifteen_dropped) \<and>
   length (remdups (map (\<lambda>r. r ''source'') (rows example_fifteen_dropped))) = 15 \<and>
   map length (table_data (create_visualization no_parse example_fifteen_dropped)) = [9]"
  by code_simp

text \<open>
  Claim C5, amended. On a non-empty packet table the top-talkers widget is shown if and
  only if the table has a \<^verbatim>\<open>source\<close> column. When shown, it is a table of (address, count)
  rows for the surviving rows \<open>S\<close>: at most ten rows, one per address, in descending
  order of count, each with the number of surviving rows from that address, and no
  address left out has more rows than one that is listed. It has ten rows when the
  surviving rows carry fifteen distinct addresses.
\<close>

theorem top_talkers_table:
  fixes parse df
  defines "out \<equiv> create_visualization parse df"
  defines "S \<equiv> survivors parse df"
  assumes pt: "packet_table df" and ne: "\<not> df_empty df"
  shows "(table_data out \<noteq> [] \<longleftrightarrow> ''source'' \<in> set (columns df)) \<and>
         (''source'' \<in> set (columns df) \<longrightarrow>
           (\<exists>T. table_data out = [T] \<and>
                length T = min 10 (length (addresses S)) \<and>
                distinct (map fst T) \<and>
                sorted_wrt (\<lambda>p q. snd q \<le> snd p) T \<and>
                (\<forall>(a, n)\<in>set T. a \<in> set (addresses S) \<and>
                                  n = length (filter (\<lambda>r. r ''source'' = a) S)) \<and>
                (\<forall>a\<in>set (addresses S). a \<notin> fst ` set T \<longrightarrow>
                   (\<forall>(b, n)\<in>set T. length (filter (\<lambda>r. r ''source'' = a) S) \<le> n)) \<and>
                (length (addresses S) = 15 \<longrightarrow> length T = 10)))"
proof -
  let ?T = "take 10 (value_counts (map (\<lambda>r. r ''source'') S))"
  have t: "table_data out = (if ''source'' \<in> set (columns df) then [?T] else [])"
    unfolding out_def S_def by (rule cv_table[OF pt ne])
  have iff: "table_data out \<noteq> [] \<longleftrightarrow> ''source'' \<in> set (columns df)"
    by (simp add: t)
  have len: "length (addresses S) = 15 \<longrightarrow> length ?T = 10"
    using top_sources_properties(1)[of S] by simp
  show ?thesis
    using iff t len top_sources_properties[of S] by (intro conjI impI exI[of _ ?T]) simp_all
qed

text \<open>
  The amended claim on a table of seventeen rows from fifteen addresses, two of which
  send two packets: the table has ten rows, and the counts come in descending order.
\<close>

theorem top_talkers_table_witness:
  "packet_table example_fifteen \<and> \<not> df_empty example_fifteen \<and>
   ''source'' \<in> set (columns example_fifteen) \<and>
   length (addresses (survivors no_parse example_fifteen)) = 15 \<and>
   map length (table_data (create_visualization no_parse example_fifteen)) = [10] \<and>
   map (map snd) (table_data (create_visualization no_parse example_fifteen)) =
     [[2, 2, 1, 1, 1, 1, 1, 1, 1, 1]]"
proof -
  have h1: "packet_table example_fifteen" by code_simp
  have h2: "\<not> df_empty example_fifteen" by code_simp
  have h3: "''source'' \<in> set (columns example_fifteen)" by code_simp
  have h4: "length (addresses (survivors no_parse example_fifteen)) = 15" by code_simp
  have v: "map (map snd) (table_data (create_visualization no_parse example_fifteen)) =
     [[2, 2, 1, 1, 1, 1, 1, 1, 1, 1]]" by code_simp
  from top_talkers_table[OF h1 h2, of no_parse] h3 h4
  have "\<exists>T. table_data (create_visualization no_parse example_fifteen) = [T] \<and> length T = 10"
    by blast
  then have "map length (table_data (create_visualization no_parse example_fifteen)) = [10]"
    by auto
  then show ?thesis
    using h1 h2 h3 h4 v by blast
qed

end
